theory Spec2Isabelle
  imports Complex_Main
begin

section \<open>Invoice digitisation prototype: the presentation layer and the extraction client\<close>

text \<open>
  The development embeds the revision of \<^verbatim>\<open>App.tsx\<close> that reconciles the totals
  (\<^verbatim>\<open>src/unnamed/part_002\<close>: the helper \<^verbatim>\<open>getSafeCurrencyCode\<close>, the
  handlers \<^verbatim>\<open>handleFileSelect\<close> and \<^verbatim>\<open>handleDigitize\<close> of the
  component \<^verbatim>\<open>App\<close>, and the interfaces of \<^verbatim>\<open>types.ts\<close>) and
  \<^verbatim>\<open>digitizeInvoice\<close> of \<^verbatim>\<open>src/services/geminiService.ts\<close>.

  Conventions.
  \<^item> A JavaScript string is a \<^typ>\<open>string\<close>. The only character tests of the code are on
    ASCII letters, which every encoding of a JavaScript string keeps as single characters.
  \<^item> A JavaScript number is an IEEE-754 double (binary64): a finite value, a negative
    zero, an infinity or \<^verbatim>\<open>NaN\<close>. Addition and subtraction round to the nearest
    double, ties to the even significand, and overflow to an infinity.
  \<^item> A value that may be \<^verbatim>\<open>undefined\<close> or \<^verbatim>\<open>null\<close> is an
    \<^typ>\<open>'a option\<close>.
  \<^item> What the browser and the SDK provide (the outbound call, \<^verbatim>\<open>String.trim\<close>,
    \<^verbatim>\<open>JSON.parse\<close>, \<^verbatim>\<open>Intl.NumberFormat\<close>) is a parameter of the model.
\<close>

subsection \<open>Currency codes\<close>

text \<open>The character class \<^verbatim>\<open>[a-zA-Z]\<close>, and its two halves.\<close>

definition is_lower_az :: "char \<Rightarrow> bool" where
  "is_lower_az c = (97 \<le> (of_char c :: nat) \<and> (of_char c :: nat) \<le> 122)"

definition is_upper_AZ :: "char \<Rightarrow> bool" where
  "is_upper_AZ c = (65 \<le> (of_char c :: nat) \<and> (of_char c :: nat) \<le> 90)"

definition is_letter :: "char \<Rightarrow> bool" where
  "is_letter c = (is_lower_az c \<or> is_upper_AZ c)"

text \<open>\<^verbatim>\<open>/^[a-zA-Z]{3}$/.test(code)\<close>: the regular expression has no flag, so it accepts
  exactly the strings of three letters.\<close>

definition three_letters :: "string \<Rightarrow> bool" where
  "three_letters code = (length code = 3 \<and> list_all is_letter code)"

text \<open>\<^verbatim>\<open>/^[A-Z]{3}$/\<close>, the pattern of a well-formed currency code.\<close>

definition three_capitals :: "string \<Rightarrow> bool" where
  "three_capitals code = (length code = 3 \<and> list_all is_upper_AZ code)"

text \<open>\<^verbatim>\<open>String.prototype.toUpperCase\<close>, on the letters \<^verbatim>\<open>a\<close> to \<^verbatim>\<open>z\<close>; the
  code calls it on strings of ASCII letters only. Other characters are left as they are.\<close>

definition upper_char :: "char \<Rightarrow> char" where
  "upper_char c = (if is_lower_az c then char_of ((of_char c :: nat) - 32) else c)"

definition toUpperCase :: "string \<Rightarrow> string" where
  "toUpperCase s = map upper_char s"

text \<open>
  \<^verbatim>\<open>
  const getSafeCurrencyCode = (code?: string) => {
      if (code && /^[a-zA-Z]{3}$/.test(code)) { return code.toUpperCase(); }
      return 'MYR';
  };
  \<close>
  An absent code is \<^term>\<open>None\<close>; the empty string is falsy.
\<close>

definition getSafeCurrencyCode :: "string option \<Rightarrow> string" where
  "getSafeCurrencyCode code =
     (case code of
        None \<Rightarrow> ''MYR''
      | Some c \<Rightarrow> if c \<noteq> [] \<and> three_letters c then toUpperCase c else ''MYR'')"

subsection \<open>Numbers\<close>

text \<open>
  A JavaScript number. \<open>Num x\<close> is the finite double of value \<open>x\<close>, the positive zero
  for \<open>x = 0\<close>; the negative zero is a value of its own. \<open>Num x\<close> is a double when
  binary64 represents \<open>x\<close>, that is when \<open>round64 x = Num x\<close> below; these are the
  finite values \<^verbatim>\<open>JSON.parse\<close> gives.
\<close>

datatype number = Num real | MinusZero | Infinity | MinusInfinity | NaN

text \<open>The binary exponent of \<open>a \<ge> 1\<close>, counted up from \<open>n\<close>, at most 1023; and for
  \<open>0 < a < 1\<close> the least \<open>n\<close> with \<open>a * 2 ^ n \<ge> 1\<close>, counted up from \<open>n\<close>, at most 1022
  (where the subnormal numbers begin).\<close>

function exponent_up :: "real \<Rightarrow> nat \<Rightarrow> nat" where
  "exponent_up a n = (if n < 1023 \<and> 2 ^ (n + 1) \<le> a then exponent_up a (n + 1) else n)"
  by pat_completeness auto
termination
  by (relation "measure (\<lambda>(a, n). 1023 - n)") auto

function exponent_down :: "real \<Rightarrow> nat \<Rightarrow> nat" where
  "exponent_down a n = (if n < 1022 \<and> a * 2 ^ n < 1 then exponent_down a (n + 1) else n)"
  by pat_completeness auto
termination
  by (relation "measure (\<lambda>(a, n). 1022 - n)") auto

declare exponent_up.simps [simp del] exponent_down.simps [simp del]

text \<open>The distance between neighbouring doubles around the magnitude \<open>a > 0\<close>: with a
  significand of 53 bits, \<open>2 ^ (e - 52)\<close> for the exponent \<open>e\<close> of \<open>a\<close>.\<close>

definition quantum :: "real \<Rightarrow> real" where
  "quantum a =
     (if 1 \<le> a then 2 ^ exponent_up a 0 / 2 ^ 52 else 1 / (2 ^ exponent_down a 0 * 2 ^ 52))"

text \<open>The integer nearest to \<open>m\<close>, the even one of the two when \<open>m\<close> is half way.\<close>

definition nearest_even :: "real \<Rightarrow> int" where
  "nearest_even m =
     (if m - of_int \<lfloor>m\<rfloor> < 1 / 2 then \<lfloor>m\<rfloor>
      else if 1 / 2 < m - of_int \<lfloor>m\<rfloor> then \<lfloor>m\<rfloor> + 1
      else if even \<lfloor>m\<rfloor> then \<lfloor>m\<rfloor> else \<lfloor>m\<rfloor> + 1)"

text \<open>The double nearest to the real \<open>x\<close>: what a numeric literal denotes and what an
  arithmetic operation gives for the exact result \<open>x\<close>. An exact zero is the positive
  zero.\<close>

definition round64 :: "real \<Rightarrow> number" where
  "round64 x =
     (if x = 0 then Num 0
      else
        (let v = of_int (nearest_even (\<bar>x\<bar> / quantum \<bar>x\<bar>)) * quantum \<bar>x\<bar>
         in if 2 ^ 1024 \<le> v then (if x < 0 then MinusInfinity else Infinity)
            else if v = 0 then (if x < 0 then MinusZero else Num 0)
            else Num (if x < 0 then - v else v)))"

text \<open>An operand read from a field: an absent field reads \<^verbatim>\<open>undefined\<close>, which
  converts to \<^verbatim>\<open>NaN\<close>.\<close>

fun operand :: "number option \<Rightarrow> number" where
  "operand (Some n) = n"
| "operand None = NaN"

text \<open>The operator \<^verbatim>\<open>+\<close> on two numbers.\<close>

fun js_plus :: "number \<Rightarrow> number \<Rightarrow> number" where
  "js_plus NaN _ = NaN"
| "js_plus _ NaN = NaN"
| "js_plus Infinity MinusInfinity = NaN"
| "js_plus MinusInfinity Infinity = NaN"
| "js_plus Infinity _ = Infinity"
| "js_plus _ Infinity = Infinity"
| "js_plus MinusInfinity _ = MinusInfinity"
| "js_plus _ MinusInfinity = MinusInfinity"
| "js_plus MinusZero MinusZero = MinusZero"
| "js_plus MinusZero (Num y) = Num y"
| "js_plus (Num x) MinusZero = Num x"
| "js_plus (Num x) (Num y) = round64 (x + y)"

text \<open>The operator \<^verbatim>\<open>-\<close> on two numbers: the sum with the negated second
  operand.\<close>

fun negated :: "number \<Rightarrow> number" where
  "negated (Num x) = (if x = 0 then MinusZero else Num (- x))"
| "negated MinusZero = Num 0"
| "negated Infinity = MinusInfinity"
| "negated MinusInfinity = Infinity"
| "negated NaN = NaN"

definition js_minus :: "number \<Rightarrow> number \<Rightarrow> number" where
  "js_minus a b = js_plus a (negated b)"

fun Math_abs :: "number \<Rightarrow> number" where
  "Math_abs (Num x) = Num \<bar>x\<bar>"
| "Math_abs MinusZero = Num 0"
| "Math_abs Infinity = Infinity"
| "Math_abs MinusInfinity = Infinity"
| "Math_abs NaN = NaN"

text \<open>The operator \<^verbatim>\<open>>\<close> on two numbers; every comparison with \<^verbatim>\<open>NaN\<close> is
  false.\<close>

fun js_greater :: "number \<Rightarrow> number \<Rightarrow> bool" where
  "js_greater NaN _ = False"
| "js_greater _ NaN = False"
| "js_greater MinusInfinity _ = False"
| "js_greater _ Infinity = False"
| "js_greater Infinity _ = True"
| "js_greater _ MinusInfinity = True"
| "js_greater (Num x) (Num y) = (y < x)"
| "js_greater (Num x) MinusZero = (0 < x)"
| "js_greater MinusZero (Num y) = (y < 0)"
| "js_greater MinusZero MinusZero = False"

subsection \<open>The data model (\<^verbatim>\<open>types.ts\<close>)\<close>

record LineItem =
  description :: string
  quantity :: number
  unitPrice :: number
  amount :: number

text \<open>
  \<^verbatim>\<open>InvoiceData\<close> as a response can carry it. A field is optional where the interface
  says so (\<^verbatim>\<open>notes?\<close>), where the response schema of \<^verbatim>\<open>digitizeInvoice\<close> leaves it
  out of \<^verbatim>\<open>required\<close> (\<^verbatim>\<open>dueDate\<close>, \<^verbatim>\<open>taxAmount\<close>), and where the handler
  tests for it before use (\<^verbatim>\<open>lineItems\<close>).
\<close>

record InvoiceData =
  vendorName :: string
  invoiceNumber :: string
  invoiceDate :: string
  dueDate :: "string option"
  totalAmount :: number
  taxAmount :: "number option"
  currency :: string
  lineItems :: "LineItem list option"
  notes' :: "string option"

text \<open>The field \<^verbatim>\<open>notes\<close> is written \<open>notes'\<close>.\<close>

subsection \<open>The platform\<close>

text \<open>An image file: its name and its media type.\<close>

datatype File = File (fileName: string) (fileType: string)

text \<open>What a \<^verbatim>\<open>throw\<close> or a rejected promise carries: an \<^verbatim>\<open>Error\<close> with its
  message, or a value that is not an instance of \<^verbatim>\<open>Error\<close>.\<close>

datatype thrown = Error (message: string) | NotAnError

text \<open>What an invocation does to the outside: the outbound call of the SDK (model
  identifier, credential, image), and the lines written with \<^verbatim>\<open>console.error\<close>
  (the label, then the value logged after it).\<close>

datatype logged = Exception thrown | Text string

datatype effect = GenerateContent string string File | ConsoleError string logged

text \<open>
  The functions the code takes from its environment.
  \<^item> \<open>generateContent model key image\<close>: \<^verbatim>\<open>ai.models.generateContent\<close> on a client made
    with the credential \<open>key\<close>, followed by reading \<^verbatim>\<open>response.text\<close>: the call
    rejects (\<^term>\<open>Inl\<close>) or gives the text of the response.
  \<^item> \<open>trim\<close>: \<^verbatim>\<open>String.prototype.trim\<close>.
  \<^item> \<open>JSON_parse\<close>: \<^verbatim>\<open>JSON.parse\<close>, which throws or gives a value of the type
    \<^typ>\<open>'d\<close>. TypeScript types the value \<^verbatim>\<open>any\<close>; the cast
    \<^verbatim>\<open>data as InvoiceData\<close> does nothing at run time.
  \<^item> \<open>format code n\<close>: \<^verbatim>\<open>new Intl.NumberFormat('en-US', {style: 'currency', currency: code}).format(n)\<close>.
\<close>

record 'd platform =
  generateContent :: "string \<Rightarrow> string \<Rightarrow> File \<Rightarrow> thrown + string"
  trim :: "string \<Rightarrow> string"
  JSON_parse :: "string \<Rightarrow> thrown + 'd"
  format :: "string \<Rightarrow> number \<Rightarrow> string"

subsection \<open>The extraction client (\<^verbatim>\<open>services/geminiService.ts\<close>)\<close>

text \<open>
  \<^verbatim>\<open>
  export const digitizeInvoice = async (imageFile, apiKey, model) => {
    if (!apiKey) { throw new Error("Gemini API key is not set. Please enter your API key."); }
    const ai = new GoogleGenAI({ apiKey });
    const imagePart = await fileToGenerativePart(imageFile);
    const response = await ai.models.generateContent({ model: model, contents: ..., config: ... });
    try {
      const jsonText = response.text.trim();
      const data = JSON.parse(jsonText);
      return data as InvoiceData;
    } catch (e) {
      console.error("Error parsing JSON response from Gemini:", e);
      console.error("Raw response text:", response.text);
      throw new Error("Failed to parse invoice data. The AI model returned an unexpected format.");
    }
  };
  \<close>
  The result is what the promise settles to (\<^term>\<open>Inl\<close> when it rejects) and the
  effects of the invocation, in order. The encoding of the image and the text of the
  prompt are inside the request and are not modelled.
\<close>

definition digitizeInvoice ::
  "'d platform \<Rightarrow> File \<Rightarrow> string \<Rightarrow> string \<Rightarrow> (thrown + 'd) \<times> effect list" where
  "digitizeInvoice P img key model =
     (if key = [] then (Inl (Error ''Gemini API key is not set. Please enter your API key.''), [])
      else
        (case generateContent P model key img of
           Inl e \<Rightarrow> (Inl e, [GenerateContent model key img])
         | Inr text \<Rightarrow>
             (case JSON_parse P (trim P text) of
                Inr data \<Rightarrow> (Inr data, [GenerateContent model key img])
              | Inl e \<Rightarrow>
                  (Inl (Error ''Failed to parse invoice data. The AI model returned an unexpected format.''),
                   [GenerateContent model key img,
                    ConsoleError ''Error parsing JSON response from Gemini:'' (Exception e),
                    ConsoleError ''Raw response text:'' (Text text)]))))"

subsection \<open>The state of the component \<^verbatim>\<open>App\<close>\<close>

text \<open>One field for each \<^verbatim>\<open>useState\<close> of \<^verbatim>\<open>App\<close>; a handler is a function from
  the state it is invoked in to the state its setters leave.\<close>

record AppState =
  apiKey :: string
  selectedModel :: string
  imageFile :: "File option"
  extractedData :: "InvoiceData option"
  isLoading :: bool
  error :: "string option"
  cameraActive :: bool
  discrepancyWarning :: "string option"
  aiNote :: "string option"

text \<open>The initial values given to \<^verbatim>\<open>useState\<close>.\<close>

definition initialState :: AppState where
  "initialState =
     \<lparr>apiKey = [], selectedModel = ''gemini-2.5-flash'', imageFile = None,
      extractedData = None, isLoading = False, error = None, cameraActive = False,
      discrepancyWarning = None, aiNote = None\<rparr>"

text \<open>
  \<^verbatim>\<open>
  const handleFileSelect = useCallback((file: File) => {
    setImageFile(file); setExtractedData(null); setError(null);
    setDiscrepancyWarning(null); setAiNote(null);
  }, []);
  \<close>
\<close>

definition handleFileSelect :: "File \<Rightarrow> AppState \<Rightarrow> AppState" where
  "handleFileSelect file st =
     st\<lparr>imageFile := Some file, extractedData := None, error := None,
        discrepancyWarning := None, aiNote := None\<rparr>"

subsection \<open>The handler \<^verbatim>\<open>handleDigitize\<close>\<close>

text \<open>The left operand of \<^verbatim>\<open>data.notes || ...\<close> when it is truthy: a string that is
  present and not empty.\<close>

fun truthy :: "string option \<Rightarrow> string option" where
  "truthy None = None"
| "truthy (Some []) = None"
| "truthy (Some (c # cs)) = Some (c # cs)"

text \<open>\<^verbatim>\<open>data.lineItems.reduce((sum, item) => sum + item.amount, 0)\<close>\<close>

definition lineItemsTotal :: "LineItem list \<Rightarrow> number" where
  "lineItemsTotal items = foldl (\<lambda>sum item. js_plus sum (amount item)) (Num 0) items"

text \<open>\<^verbatim>\<open>const calculatedTotal = lineItemsTotal + data.taxAmount;\<close>\<close>

definition calculatedTotal :: "InvoiceData \<Rightarrow> LineItem list \<Rightarrow> number" where
  "calculatedTotal data items = js_plus (lineItemsTotal items) (operand (taxAmount data))"

text \<open>\<^verbatim>\<open>const difference = Math.abs(calculatedTotal - data.totalAmount);\<close>\<close>

definition difference :: "InvoiceData \<Rightarrow> LineItem list \<Rightarrow> number" where
  "difference data items = Math_abs (js_minus (calculatedTotal data items) (totalAmount data))"

text \<open>The template string \<^verbatim>\<open>warningMessage\<close>, with the formatter made for
  \<^verbatim>\<open>getSafeCurrencyCode(data.currency)\<close>.\<close>

definition warningMessage :: "'d platform \<Rightarrow> InvoiceData \<Rightarrow> LineItem list \<Rightarrow> string" where
  "warningMessage P data items =
     ''The sum of extracted line items plus tax (''
     @ format P (getSafeCurrencyCode (Some (currency data))) (calculatedTotal data items)
     @ '') does not match the invoice total (''
     @ format P (getSafeCurrencyCode (Some (currency data))) (totalAmount data)
     @ ''). Please review the extracted data.''"

text \<open>
  The body of the \<^verbatim>\<open>try\<close> block after \<^verbatim>\<open>await digitizeInvoice(...)\<close> has given
  \<open>data\<close>:
  \<^verbatim>\<open>
      if (data.vendorName === 'Invalid Document') {
        setError(data.notes || 'The uploaded image does not appear to be a valid invoice. Please try another image.');
        setExtractedData(null);
        setIsLoading(false);
        return;
      }
      setExtractedData(data);
      setAiNote(data.notes || null);
      if (data && data.lineItems) {
        const lineItemsTotal = ...; const calculatedTotal = ...; const difference = ...;
        if (difference > 0.01) {
            const currencyFormatter = new Intl.NumberFormat('en-US', { style: 'currency', currency: getSafeCurrencyCode(data.currency) });
            const warningMessage = `...`;
            setDiscrepancyWarning(warningMessage);
        }
      }
  \<close>
\<close>

definition handleDigitize_try :: "'d platform \<Rightarrow> InvoiceData \<Rightarrow> AppState \<Rightarrow> AppState" where
  "handleDigitize_try P data st =
     (if vendorName data = ''Invalid Document'' then
        st\<lparr>error :=
             Some (case truthy (notes' data) of
                     Some n \<Rightarrow> n
                   | None \<Rightarrow> ''The uploaded image does not appear to be a valid invoice. Please try another image.''),
           extractedData := None,
           isLoading := False\<rparr>
      else
        (let st' = st\<lparr>extractedData := Some data, aiNote := truthy (notes' data)\<rparr>
         in case lineItems data of
              None \<Rightarrow> st'
            | Some items \<Rightarrow>
                if js_greater (difference data items) (round64 0.01)
                then st'\<lparr>discrepancyWarning := Some (warningMessage P data items)\<rparr>
                else st'))"

text \<open>
  \<^verbatim>\<open>
    } catch (err) {
      if (err instanceof Error) { setError(err.message); }
      else { setError("An unknown error occurred during digitization."); }
    }
  \<close>
\<close>

definition handleDigitize_catch :: "thrown \<Rightarrow> AppState \<Rightarrow> AppState" where
  "handleDigitize_catch err st =
     (case err of
        Error m \<Rightarrow> st\<lparr>error := Some m\<rparr>
      | NotAnError \<Rightarrow> st\<lparr>error := Some ''An unknown error occurred during digitization.''\<rparr>)"

text \<open>
  \<^verbatim>\<open>
  const handleDigitize = async () => {
    if (!imageFile) { setError("Please upload an invoice image first."); return; }
    if (!apiKey) { setError("Please enter your Gemini API key before digitizing."); return; }
    setIsLoading(true); setError(null); setExtractedData(null);
    setDiscrepancyWarning(null); setAiNote(null);
    try {
      const data = await digitizeInvoice(imageFile, apiKey, selectedModel);
      ...
    } catch (err) { ... }
    finally { setIsLoading(false); }
  };
  \<close>
  The result is the state when the invocation has completed, and its effects.
\<close>

definition handleDigitize :: "InvoiceData platform \<Rightarrow> AppState \<Rightarrow> AppState \<times> effect list" where
  "handleDigitize P st =
     (case imageFile st of
        None \<Rightarrow> (st\<lparr>error := Some ''Please upload an invoice image first.''\<rparr>, [])
      | Some file \<Rightarrow>
          if apiKey st = [] then
            (st\<lparr>error := Some ''Please enter your Gemini API key before digitizing.''\<rparr>, [])
          else
            (let st1 = st\<lparr>isLoading := True, error := None, extractedData := None,
                          discrepancyWarning := None, aiNote := None\<rparr>;
                 (settled, effects) = digitizeInvoice P file (apiKey st) (selectedModel st);
                 st2 = (case settled of
                          Inr data \<Rightarrow> handleDigitize_try P data st1
                        | Inl err \<Rightarrow> handleDigitize_catch err st1)
             in (st2\<lparr>isLoading := False\<rparr>, effects)))"

subsection \<open>JSON values and the shape of a response\<close>

text \<open>The values \<^verbatim>\<open>JSON.parse\<close> can give; an object is the list of its keys with
  their values.\<close>

datatype json =
  JNull | JBool bool | JNumber number | JString string | JArray "json list"
  | JObject "(string \<times> json) list"

definition string_field :: "(string \<times> json) list \<Rightarrow> string \<Rightarrow> bool" where
  "string_field kv k = (case map_of kv k of Some (JString _) \<Rightarrow> True | _ \<Rightarrow> False)"

definition number_field :: "(string \<times> json) list \<Rightarrow> string \<Rightarrow> bool" where
  "number_field kv k = (case map_of kv k of Some (JNumber _) \<Rightarrow> True | _ \<Rightarrow> False)"

definition optional_string_field :: "(string \<times> json) list \<Rightarrow> string \<Rightarrow> bool" where
  "optional_string_field kv k =
     (case map_of kv k of None \<Rightarrow> True | Some (JString _) \<Rightarrow> True | _ \<Rightarrow> False)"

definition optional_number_field :: "(string \<times> json) list \<Rightarrow> string \<Rightarrow> bool" where
  "optional_number_field kv k =
     (case map_of kv k of None \<Rightarrow> True | Some (JNumber _) \<Rightarrow> True | _ \<Rightarrow> False)"

text \<open>The item schema of \<^verbatim>\<open>lineItems\<close>: four required fields.\<close>

definition is_LineItem :: "json \<Rightarrow> bool" where
  "is_LineItem j =
     (case j of
        JObject kv \<Rightarrow>
          string_field kv ''description'' \<and> number_field kv ''quantity''
          \<and> number_field kv ''unitPrice'' \<and> number_field kv ''amount''
      | _ \<Rightarrow> False)"

text \<open>The \<^verbatim>\<open>responseSchema\<close> of the request: the types of the properties, and
  \<^verbatim>\<open>required: ["vendorName", "invoiceNumber", "invoiceDate", "totalAmount", "lineItems", "currency"]\<close>.\<close>

definition is_InvoiceData :: "json \<Rightarrow> bool" where
  "is_InvoiceData j =
     (case j of
        JObject kv \<Rightarrow>
          string_field kv ''vendorName'' \<and> string_field kv ''invoiceNumber''
          \<and> string_field kv ''invoiceDate'' \<and> optional_string_field kv ''dueDate''
          \<and> number_field kv ''totalAmount'' \<and> optional_number_field kv ''taxAmount''
          \<and> string_field kv ''currency''
          \<and> (case map_of kv ''lineItems'' of
                Some (JArray xs) \<Rightarrow> list_all is_LineItem xs
              | _ \<Rightarrow> False)
          \<and> optional_string_field kv ''notes''
      | _ \<Rightarrow> False)"

subsection \<open>A platform to run the model on\<close>

text \<open>
  The theorems below hold for every platform. To evaluate them on examples, this platform
  answers every request with the text \<open>text\<close>, trims ASCII white space, reads that text
  as the value \<open>data\<close> and refuses every other text, and prints an amount as the currency
  code, a space and the amount with two decimals.
\<close>

definition is_space :: "char \<Rightarrow> bool" where
  "is_space c = ((of_char c :: nat) = 32 \<or> (9 \<le> (of_char c :: nat) \<and> (of_char c :: nat) \<le> 13))"

definition trim_ascii :: "string \<Rightarrow> string" where
  "trim_ascii s = rev (dropWhile is_space (rev (dropWhile is_space s)))"

fun decimal :: "nat \<Rightarrow> string" where
  "decimal n =
     (if n < 10 then [''0123456789'' ! n]
      else decimal (n div 10) @ [''0123456789'' ! (n mod 10)])"

definition two_decimals :: "real \<Rightarrow> string" where
  "two_decimals x =
     (let cents = nat \<lfloor>\<bar>x\<bar> * 100 + 1 / 2\<rfloor>
      in decimal (cents div 100) @ ''.''
         @ [''0123456789'' ! (cents mod 100 div 10), ''0123456789'' ! (cents mod 10)])"

definition sample_format :: "string \<Rightarrow> number \<Rightarrow> string" where
  "sample_format code n =
     (case n of
        Num x \<Rightarrow> (if x < 0 then ''-'' else []) @ code @ '' '' @ two_decimals x
      | MinusZero \<Rightarrow> ''-'' @ code @ '' 0.00''
      | Infinity \<Rightarrow> code @ '' Infinity''
      | MinusInfinity \<Rightarrow> ''-'' @ code @ '' Infinity''
      | NaN \<Rightarrow> code @ '' NaN'')"

definition answering :: "string \<Rightarrow> 'd \<Rightarrow> 'd platform" where
  "answering text data =
     \<lparr>generateContent = (\<lambda>model key img. Inr text),
      trim = trim_ascii,
      JSON_parse = (\<lambda>s. if s = trim_ascii text then Inr data
                         else Inl (Error ''Unexpected token'')),
      format = sample_format\<rparr>"

text \<open>A platform whose outbound call fails with \<open>e\<close>.\<close>

definition failing :: "thrown \<Rightarrow> 'd platform" where
  "failing e =
     \<lparr>generateContent = (\<lambda>model key img. Inl e),
      trim = trim_ascii,
      JSON_parse = (\<lambda>s. Inl (Error ''Unexpected token'')),
      format = sample_format\<rparr>"

text \<open>A platform that answers with \<open>text\<close>, which is not JSON.\<close>

definition garbling :: "string \<Rightarrow> 'd platform" where
  "garbling text =
     \<lparr>generateContent = (\<lambda>model key img. Inr text),
      trim = trim_ascii,
      JSON_parse = (\<lambda>s. Inl (Error ''Unexpected token'')),
      format = sample_format\<rparr>"

text \<open>The state after a credential was saved and a file selected.\<close>

definition ready :: AppState where
  "ready = handleFileSelect (File ''invoice.png'' ''image/png'') (initialState\<lparr>apiKey := ''secret''\<rparr>)"

text \<open>The invoice of the example as \<^verbatim>\<open>JSON.parse\<close> gives it: one line item, a tax
  of 1.5 and, for a response that writes the total \<open>stated\<close>, the double nearest to it.\<close>

definition widget_invoice :: "real \<Rightarrow> InvoiceData" where
  "widget_invoice stated =
     \<lparr>vendorName = ''Acme'', invoiceNumber = ''INV-1'', invoiceDate = ''2024-01-31'',
      dueDate = None, totalAmount = round64 stated, taxAmount = Some (Num 1.5),
      currency = ''myr'',
      lineItems =
        Some [\<lparr>description = ''Widget'', quantity = Num 2, unitPrice = Num 10, amount = Num 20\<rparr>],
      notes' = None\<rparr>"

text \<open>The same invoice in a response that leaves \<^verbatim>\<open>taxAmount\<close> out.\<close>

definition untaxed_invoice :: "real \<Rightarrow> InvoiceData" where
  "untaxed_invoice stated = (widget_invoice stated)\<lparr>taxAmount := None\<rparr>"

text \<open>The response for an image that is not an invoice, as the prompt asks for it, with
  the note \<open>n\<close>.\<close>

definition invalid_document :: "string option \<Rightarrow> InvoiceData" where
  "invalid_document n =
     \<lparr>vendorName = ''Invalid Document'', invoiceNumber = [], invoiceDate = [],
      dueDate = None, totalAmount = Num 0, taxAmount = None, currency = ''USD'',
      lineItems = Some [], notes' = n\<rparr>"

text \<open>An invoice with a large and a small line item, no tax, and the large amount alone
  as its total. Every number of it is a double.\<close>

definition large_invoice :: InvoiceData where
  "large_invoice =
     \<lparr>vendorName = ''Acme'', invoiceNumber = ''INV-2'', invoiceDate = ''2024-01-31'',
      dueDate = None, totalAmount = Num 10000000000000000, taxAmount = Some (Num 0),
      currency = ''myr'',
      lineItems =
        Some [\<lparr>description = ''Plant'', quantity = Num 1, unitPrice = Num 10000000000000000,
                amount = Num 10000000000000000\<rparr>,
              \<lparr>description = ''Bolt'', quantity = Num 1, unitPrice = Num 1, amount = Num 1\<rparr>],
      notes' = None\<rparr>"

text \<open>The texts of the responses of the examples. \<open>widget_response t\<close> carries the total
  written \<open>t\<close>; \<open>untaxed_response t\<close> has no \<^verbatim>\<open>taxAmount\<close>; \<open>invalid_response n\<close>
  carries the note \<open>n\<close>.\<close>

definition widget_response :: "string \<Rightarrow> string" where
  \<open>widget_response t =
     ''{"vendorName":"Acme","invoiceNumber":"INV-1","invoiceDate":"2024-01-31","totalAmount":''
     @ t @ '',"taxAmount":1.5,"currency":"myr","lineItems":[{"description":"Widget","quantity":2,"unitPrice":10,"amount":20}]}''\<close>

definition untaxed_response :: "string \<Rightarrow> string" where
  \<open>untaxed_response t =
     ''{"vendorName":"Acme","invoiceNumber":"INV-1","invoiceDate":"2024-01-31","totalAmount":''
     @ t @ '',"currency":"myr","lineItems":[{"description":"Widget","quantity":2,"unitPrice":10,"amount":20}]}''\<close>

definition large_response :: string where
  \<open>large_response =
     ''{"vendorName":"Acme","invoiceNumber":"INV-2","invoiceDate":"2024-01-31","totalAmount":10000000000000000,"taxAmount":0,"currency":"myr","lineItems":[{"description":"Plant","quantity":1,"unitPrice":10000000000000000,"amount":10000000000000000},{"description":"Bolt","quantity":1,"unitPrice":1,"amount":1}]}''\<close>

definition invalid_response :: "string \<Rightarrow> string" where
  \<open>invalid_response n =
     ''{"vendorName":"Invalid Document","invoiceNumber":"","invoiceDate":"","totalAmount":0,"currency":"USD","lineItems":[],"notes":"''
     @ n @ ''"}''\<close>

section \<open>Properties\<close>

subsection \<open>Auxiliary facts\<close>

lemma lineItemsTotal_foldl:
  "lineItemsTotal items = foldl js_plus (Num 0) (map amount items)"
  by (simp add: lineItemsTotal_def foldl_map)

lemma js_plus_NaN: "js_plus a NaN = NaN"
  by (cases a) simp_all

lemma difference_without_tax: "taxAmount data = None \<Longrightarrow> difference data items = NaN"
  by (simp add: difference_def calculatedTotal_def js_minus_def js_plus_NaN)

text \<open>The arithmetic on some well-known cases: 0.1 + 0.2 is 0.30000000000000004, which is
  not the double nearest to 0.3; \<open>2\<^sup>5\<^sup>3 + 1\<close> and \<open>2\<^sup>5\<^sup>3 + 3\<close>, half way between two
  doubles, round to the even neighbour; the difference of two infinities is
  \<^verbatim>\<open>NaN\<close>; and the zero keeps its sign only in \<^verbatim>\<open>-0 - 0\<close>.\<close>

lemma binary64_examples:
  "js_plus (round64 (1 / 10)) (round64 (2 / 10)) = Num (1351079888211149 / 2 ^ 52)"
  "round64 (3 / 10) = Num (5404319552844595 / 2 ^ 54)"
  "round64 9007199254740993 = Num 9007199254740992"
  "round64 9007199254740995 = Num 9007199254740996"
  "js_minus Infinity Infinity = NaN"
  "js_minus (Num 0) (Num 0) = Num 0"
  "js_minus MinusZero (Num 0) = MinusZero"
  by (simp_all add: round64_def quantum_def exponent_up.simps exponent_down.simps
      nearest_even_def js_minus_def)

text \<open>The numbers of the examples: 20, 21.5, 25, 3.5, 5 and \<open>10\<^sup>1\<^sup>6\<close> are doubles; the double
  nearest to 0.01 is \<open>5764607523034235 / 2\<^sup>5\<^sup>9\<close>, a little above 0.01; the double nearest
  to 21.51 is \<open>6054526749046211 / 2\<^sup>4\<^sup>8\<close>, a little above 21.51; and \<open>10\<^sup>1\<^sup>6 + 1\<close>, half
  way between two doubles, rounds to \<open>10\<^sup>1\<^sup>6\<close>.\<close>

lemma round64_small:
  "round64 20 = Num 20"
  "round64 (43 / 2) = Num (43 / 2)"
  "round64 25 = Num 25"
  "round64 (- (7 / 2)) = Num (- (7 / 2))"
  "round64 (- 5) = Num (- 5)"
  by (simp_all add: round64_def quantum_def exponent_up.simps nearest_even_def)

lemma round64_zero: "round64 0 = Num 0"
  by (simp add: round64_def)

lemma round64_cent: "round64 (1 / 100) = Num (5764607523034235 / 2 ^ 59)"
  by (simp add: round64_def quantum_def exponent_down.simps nearest_even_def)

lemma round64_2151: "round64 (2151 / 100) = Num (6054526749046211 / 2 ^ 48)"
  by (simp add: round64_def quantum_def exponent_up.simps nearest_even_def)

lemma round64_gap: "round64 (- (2814749767107 / 2 ^ 48)) = Num (- (2814749767107 / 2 ^ 48))"
  by (simp add: round64_def quantum_def exponent_down.simps nearest_even_def)

lemma round64_large: "round64 10000000000000001 = Num 10000000000000000"
  "round64 10000000000000000 = Num 10000000000000000"
  by (simp_all add: round64_def quantum_def exponent_up.simps nearest_even_def)

lemma truthy_nonempty: "n \<noteq> [] \<Longrightarrow> truthy (Some n) = Some n"
  by (cases n) simp_all

text \<open>Past its two guards, the handler is the \<^verbatim>\<open>try\<close> or the \<^verbatim>\<open>catch\<close> block on
  the cleared state, followed by the \<^verbatim>\<open>finally\<close> block.\<close>

lemma handleDigitize_attempt:
  assumes "imageFile st = Some file" and "apiKey st \<noteq> []"
  shows "handleDigitize P st =
    ((case fst (digitizeInvoice P file (apiKey st) (selectedModel st)) of
        Inr data \<Rightarrow> handleDigitize_try P data
           (st\<lparr>isLoading := True, error := None, extractedData := None,
               discrepancyWarning := None, aiNote := None\<rparr>)
      | Inl err \<Rightarrow> handleDigitize_catch err
           (st\<lparr>isLoading := True, error := None, extractedData := None,
               discrepancyWarning := None, aiNote := None\<rparr>))\<lparr>isLoading := False\<rparr>,
     snd (digitizeInvoice P file (apiKey st) (selectedModel st)))"
  using assms by (simp add: handleDigitize_def Let_def split: prod.split)

lemma handleDigitize_data:
  assumes "imageFile st = Some file" and "apiKey st \<noteq> []"
    and "fst (digitizeInvoice P file (apiKey st) (selectedModel st)) = Inr data"
  shows "fst (handleDigitize P st) =
    (handleDigitize_try P data
       (st\<lparr>isLoading := True, error := None, extractedData := None,
           discrepancyWarning := None, aiNote := None\<rparr>))\<lparr>isLoading := False\<rparr>"
  using assms by (simp add: handleDigitize_attempt)

text \<open>The examples: the state \<^term>\<open>ready\<close> and the sample platforms.\<close>

lemma ready_fields:
  "imageFile ready = Some (File ''invoice.png'' ''image/png'')"
  "apiKey ready = ''secret''"
  "selectedModel ready = ''gemini-2.5-flash''"
  "isLoading ready = False"
  by (simp_all add: ready_def handleFileSelect_def initialState_def)

lemma digitizeInvoice_answering:
  "key \<noteq> [] \<Longrightarrow>
   digitizeInvoice (answering text data) img key model = (Inr data, [GenerateContent model key img])"
  by (simp add: digitizeInvoice_def answering_def)

lemma ready_answering:
  "fst (digitizeInvoice (answering text data) (File ''invoice.png'' ''image/png'')
          (apiKey ready) (selectedModel ready)) = Inr data"
  by (simp add: ready_fields digitizeInvoice_answering)

lemma widget_invoice_fields:
  "vendorName (widget_invoice x) \<noteq> ''Invalid Document''"
  "lineItems (widget_invoice x) =
     Some [\<lparr>description = ''Widget'', quantity = Num 2, unitPrice = Num 10, amount = Num 20\<rparr>]"
  "taxAmount (widget_invoice x) = Some (Num 1.5)"
  "totalAmount (widget_invoice x) = round64 x"
  "currency (widget_invoice x) = ''myr''"
  by (simp_all add: widget_invoice_def)

lemma widget_invoice_total:
  "totalAmount (widget_invoice 25) = Num 25"
  "totalAmount (widget_invoice (43 / 2)) = Num (43 / 2)"
  "totalAmount (widget_invoice (2151 / 100)) = Num (6054526749046211 / 2 ^ 48)"
  using round64_small(2,3) round64_2151 by (simp_all add: widget_invoice_fields(4))

text \<open>The computed total of the example is 21.5, and its distance from the totals 25, 21.5
  and the double nearest to 21.51.\<close>

lemma widget_calculatedTotal:
  assumes "lineItems data =
      Some [\<lparr>description = ''Widget'', quantity = Num 2, unitPrice = Num 10, amount = Num 20\<rparr>]"
    and "taxAmount data = Some (Num 1.5)"
  shows "calculatedTotal data
      [\<lparr>description = ''Widget'', quantity = Num 2, unitPrice = Num 10, amount = Num 20\<rparr>]
    = Num 21.5"
  using assms(2) round64_small(1,2) by (simp add: calculatedTotal_def lineItemsTotal_def)

lemma widget_difference:
  assumes "lineItems data =
      Some [\<lparr>description = ''Widget'', quantity = Num 2, unitPrice = Num 10, amount = Num 20\<rparr>]"
    and "taxAmount data = Some (Num 1.5)"
  shows "totalAmount data = Num 25 \<Longrightarrow>
      difference data
        [\<lparr>description = ''Widget'', quantity = Num 2, unitPrice = Num 10, amount = Num 20\<rparr>]
      = Num (7 / 2)"
    and "totalAmount data = Num 21.5 \<Longrightarrow>
      difference data
        [\<lparr>description = ''Widget'', quantity = Num 2, unitPrice = Num 10, amount = Num 20\<rparr>]
      = Num 0"
    and "totalAmount data = Num (6054526749046211 / 2 ^ 48) \<Longrightarrow>
      difference data
        [\<lparr>description = ''Widget'', quantity = Num 2, unitPrice = Num 10, amount = Num 20\<rparr>]
      = Num (2814749767107 / 2 ^ 48)"
  using round64_small(4) round64_gap
  by (simp_all add: difference_def widget_calculatedTotal [OF assms] js_minus_def round64_def)

lemma cent_comparisons:
  "js_greater (Num (7 / 2)) (round64 0.01)"
  "\<not> js_greater (Num 0) (round64 0.01)"
  "js_greater (Num (2814749767107 / 2 ^ 48)) (round64 0.01)"
  "js_greater (Num 5) (round64 0.01)"
  using round64_cent by simp_all

subsection \<open>Reconciliation of the totals\<close>

text \<open>
  Claim C1, as amended. When the extraction succeeds with a response that is not the
  sentinel and that has a \<^verbatim>\<open>lineItems\<close> array and a \<^verbatim>\<open>taxAmount\<close>, the result
  is shown, and the discrepancy warning is set if and only if the absolute difference
  between \<^verbatim>\<open>totalAmount\<close> and the sum of the line-item amounts plus
  \<^verbatim>\<open>taxAmount\<close>, computed in double precision (the amounts added to 0 from left to
  right, then the tax added, then the total subtracted, each result rounded to the nearest
  double), exceeds the double nearest to 0.01; otherwise no warning is set. The warning is
  the mismatch message with the formatted computed total and the formatted
  \<^verbatim>\<open>totalAmount\<close>.
\<close>

theorem discrepancy_warning_iff:
  assumes "imageFile st = Some file" and "apiKey st \<noteq> []"
    and "fst (digitizeInvoice P file (apiKey st) (selectedModel st)) = Inr data"
    and "vendorName data \<noteq> ''Invalid Document''"
    and "lineItems data = Some items" and "taxAmount data = Some tax"
  shows "extractedData (fst (handleDigitize P st)) = Some data \<and>
     discrepancyWarning (fst (handleDigitize P st)) =
       (if js_greater
             (Math_abs
                (js_minus (js_plus (foldl js_plus (Num 0) (map amount items)) tax)
                   (totalAmount data)))
             (round64 0.01)
        then Some (''The sum of extracted line items plus tax (''
                   @ format P (getSafeCurrencyCode (Some (currency data)))
                       (js_plus (foldl js_plus (Num 0) (map amount items)) tax)
                   @ '') does not match the invoice total (''
                   @ format P (getSafeCurrencyCode (Some (currency data))) (totalAmount data)
                   @ ''). Please review the extracted data.'')
        else None) \<and>
     round64 0.01 = Num (5764607523034235 / 2 ^ 59)"
proof -
  have c: "calculatedTotal data items = js_plus (foldl js_plus (Num 0) (map amount items)) tax"
    using assms(6) by (simp add: calculatedTotal_def lineItemsTotal_foldl)
  have d: "difference data items =
      Math_abs (js_minus (js_plus (foldl js_plus (Num 0) (map amount items)) tax) (totalAmount data))"
    by (simp add: difference_def c)
  have shown: "extractedData (fst (handleDigitize P st)) = Some data"
    using assms(4,5)
    by (simp add: handleDigitize_data [OF assms(1-3)] handleDigitize_try_def Let_def)
  have warned: "discrepancyWarning (fst (handleDigitize P st)) =
      (if js_greater (difference data items) (round64 0.01)
       then Some (warningMessage P data items) else None)"
    using assms(4,5)
    by (simp add: handleDigitize_data [OF assms(1-3)] handleDigitize_try_def Let_def)
  have cent: "round64 0.01 = Num (5764607523034235 / 2 ^ 59)"
    using round64_cent by simp
  show ?thesis
    using shown warned cent unfolding d warningMessage_def c by simp
qed

theorem discrepancy_warning_iff_witness:
  "discrepancyWarning
     (fst (handleDigitize (answering (widget_response ''25'') (widget_invoice 25)) ready)) =
       Some ''The sum of extracted line items plus tax (MYR 21.50) does not match the invoice total (MYR 25.00). Please review the extracted data.''
   \<and> discrepancyWarning
     (fst (handleDigitize (answering (widget_response ''21.5'') (widget_invoice 21.5)) ready)) = None"
proof -
  have a: "imageFile ready = Some (File ''invoice.png'' ''image/png'')"
    and b: "apiKey ready \<noteq> []"
    by (simp_all add: ready_fields)
  have code: "getSafeCurrencyCode (Some ''myr'') = ''MYR''"
    by code_simp
  have f1: "sample_format ''MYR'' (Num (43 / 2)) = ''MYR 21.50''"
    and f2: "sample_format ''MYR'' (Num 25) = ''MYR 25.00''"
    by (simp_all add: sample_format_def two_decimals_def)
  have g: "format (answering t d) = sample_format" for t and d :: InvoiceData
    by (simp add: answering_def)
  show ?thesis
    using
      discrepancy_warning_iff [OF a b
        ready_answering [of "widget_response ''25''" "widget_invoice 25"]
        widget_invoice_fields(1-3)]
      discrepancy_warning_iff [OF a b
        ready_answering [of "widget_response ''21.5''" "widget_invoice 21.5"]
        widget_invoice_fields(1-3)]
    by (simp add: widget_invoice_total widget_invoice_fields(5) code f1 f2 g js_minus_def
        round64_small round64_zero round64_cent)
qed

text \<open>
  The claim as it stands compares the exact difference with 0.01, and fails both ways.
  The invoice with the amounts \<open>10\<^sup>1\<^sup>6\<close> and 1, no tax and the total \<open>10\<^sup>1\<^sup>6\<close> is off by 1, and
  every number of it is a double; the sum \<open>10\<^sup>1\<^sup>6 + 1\<close> rounds to \<open>10\<^sup>1\<^sup>6\<close>, and no warning is
  set. The response that writes the total 21.51 beside the amount 20 and the tax 1.5 is
  off by 0.01, which does not exceed 0.01; the total is read as the double nearest to
  21.51, and the warning is set.
\<close>

theorem discrepancy_rounding_counterexample:
  "vendorName large_invoice \<noteq> ''Invalid Document''
   \<and> lineItems large_invoice =
      Some [\<lparr>description = ''Plant'', quantity = Num 1, unitPrice = Num 10000000000000000,
              amount = Num 10000000000000000\<rparr>,
            \<lparr>description = ''Bolt'', quantity = Num 1, unitPrice = Num 1, amount = Num 1\<rparr>]
   \<and> taxAmount large_invoice = Some (Num 0)
   \<and> totalAmount large_invoice = Num 10000000000000000
   \<and> round64 10000000000000000 = Num 10000000000000000
   \<and> (0.01 :: real) < \<bar>10000000000000000 - (10000000000000000 + 1 + 0)\<bar>
   \<and> extractedData (fst (handleDigitize (answering large_response large_invoice) ready))
       = Some large_invoice
   \<and> discrepancyWarning (fst (handleDigitize (answering large_response large_invoice) ready))
       = None
   \<and> \<bar>21.51 - (20 + 1.5)\<bar> \<le> (0.01 :: real)
   \<and> discrepancyWarning
        (fst (handleDigitize (answering (widget_response ''21.51'') (widget_invoice 21.51)) ready))
       \<noteq> None"
proof -
  have a: "imageFile ready = Some (File ''invoice.png'' ''image/png'')"
    and b: "apiKey ready \<noteq> []"
    by (simp_all add: ready_fields)
  have l: "vendorName large_invoice \<noteq> ''Invalid Document''"
    "lineItems large_invoice =
      Some [\<lparr>description = ''Plant'', quantity = Num 1, unitPrice = Num 10000000000000000,
              amount = Num 10000000000000000\<rparr>,
            \<lparr>description = ''Bolt'', quantity = Num 1, unitPrice = Num 1, amount = Num 1\<rparr>]"
    "taxAmount large_invoice = Some (Num 0)"
    "totalAmount large_invoice = Num 10000000000000000"
    by (simp_all add: large_invoice_def)
  note items = l(2)
  have d: "difference large_invoice
      [\<lparr>description = ''Plant'', quantity = Num 1, unitPrice = Num 10000000000000000,
         amount = Num 10000000000000000\<rparr>,
       \<lparr>description = ''Bolt'', quantity = Num 1, unitPrice = Num 1, amount = Num 1\<rparr>] = Num 0"
    using round64_large
    by (simp add: difference_def calculatedTotal_def lineItemsTotal_def l(3,4) js_minus_def
        round64_def)
  have large: "extractedData (fst (handleDigitize (answering large_response large_invoice) ready))
       = Some large_invoice
     \<and> discrepancyWarning (fst (handleDigitize (answering large_response large_invoice) ready))
       = None"
    using l(1) cent_comparisons(2)
    by (simp add: handleDigitize_data [OF a b ready_answering] handleDigitize_try_def items d
        Let_def)
  have cent: "discrepancyWarning
        (fst (handleDigitize (answering (widget_response ''21.51'') (widget_invoice 21.51)) ready))
       \<noteq> None"
    using cent_comparisons(3)
    by (simp add: handleDigitize_data [OF a b ready_answering] handleDigitize_try_def
        widget_invoice_fields(1,2)
        widget_difference(3) [OF widget_invoice_fields(2,3) widget_invoice_total(3)] Let_def)
  show ?thesis
    using large cent round64_large(2) by (simp add: l)
qed

text \<open>
  Claim C7. For the line items \<^verbatim>\<open>[{description: "Widget", quantity: 2, unitPrice: 10, amount: 20}]\<close>
  and \<^verbatim>\<open>taxAmount = 1.5\<close>: a stated total of 21.5 sets no warning; a stated total of 25
  sets the warning whose message carries the formatted computed total 21.5 and the
  formatted stated total 25. The numbers 20, 1.5, 21.5 and 25 are doubles and every
  operation on them is exact. The digits are the formatter's; with a formatter of two
  decimals they read 21.50 and 25.00.
\<close>

theorem widget_example:
  assumes "imageFile st = Some file" and "apiKey st \<noteq> []"
    and "fst (digitizeInvoice P file (apiKey st) (selectedModel st)) = Inr data"
    and "vendorName data \<noteq> ''Invalid Document''"
    and "lineItems data =
      Some [\<lparr>description = ''Widget'', quantity = Num 2, unitPrice = Num 10, amount = Num 20\<rparr>]"
    and "taxAmount data = Some (Num 1.5)"
  shows "(totalAmount data = Num 21.5 \<longrightarrow> discrepancyWarning (fst (handleDigitize P st)) = None) \<and>
     (totalAmount data = Num 25 \<longrightarrow>
        discrepancyWarning (fst (handleDigitize P st)) =
          Some (''The sum of extracted line items plus tax (''
                @ format P (getSafeCurrencyCode (Some (currency data))) (Num 21.5)
                @ '') does not match the invoice total (''
                @ format P (getSafeCurrencyCode (Some (currency data))) (Num 25)
                @ ''). Please review the extracted data.''))"
proof -
  note c = widget_calculatedTotal [OF assms(5,6)]
  have silent: "discrepancyWarning (fst (handleDigitize P st)) = None"
    if "totalAmount data = Num 21.5"
    using assms(4,5) cent_comparisons(2) that
    by (simp add: handleDigitize_data [OF assms(1-3)] handleDigitize_try_def
        widget_difference(2) [OF assms(5,6)] Let_def)
  have warned: "discrepancyWarning (fst (handleDigitize P st)) =
          Some (''The sum of extracted line items plus tax (''
                @ format P (getSafeCurrencyCode (Some (currency data))) (Num 21.5)
                @ '') does not match the invoice total (''
                @ format P (getSafeCurrencyCode (Some (currency data))) (Num 25)
                @ ''). Please review the extracted data.'')"
    if "totalAmount data = Num 25"
    using assms(4,5) cent_comparisons(1) that
    by (simp add: handleDigitize_data [OF assms(1-3)] handleDigitize_try_def
        widget_difference(1) [OF assms(5,6)] c warningMessage_def Let_def)
  show ?thesis
    using silent warned by blast
qed

theorem widget_example_witness:
  "discrepancyWarning
     (fst (handleDigitize (answering (widget_response ''21.5'') (widget_invoice 21.5)) ready)) = None
   \<and> discrepancyWarning
     (fst (handleDigitize (answering (widget_response ''25'') (widget_invoice 25)) ready)) =
       Some ''The sum of extracted line items plus tax (MYR 21.50) does not match the invoice total (MYR 25.00). Please review the extracted data.''"
proof -
  have a: "imageFile ready = Some (File ''invoice.png'' ''image/png'')"
    and b: "apiKey ready \<noteq> []"
    by (simp_all add: ready_fields)
  have code: "getSafeCurrencyCode (Some ''myr'') = ''MYR''"
    by code_simp
  have f1: "sample_format ''MYR'' (Num (43 / 2)) = ''MYR 21.50''"
    and f2: "sample_format ''MYR'' (Num 25) = ''MYR 25.00''"
    by (simp_all add: sample_format_def two_decimals_def)
  have g: "format (answering t d) = sample_format" for t and d :: InvoiceData
    by (simp add: answering_def)
  show ?thesis
    using
      widget_example [OF a b
        ready_answering [of "widget_response ''21.5''" "widget_invoice 21.5"]
        widget_invoice_fields(1-3)]
      widget_example [OF a b
        ready_answering [of "widget_response ''25''" "widget_invoice 25"]
        widget_invoice_fields(1-3)]
    by (simp add: widget_invoice_total widget_invoice_fields(5) code f1 f2 g)
qed

subsection \<open>An absent tax amount\<close>

text \<open>Without a \<^verbatim>\<open>taxAmount\<close> the computed total is \<^verbatim>\<open>NaN\<close> and the comparison
  with 0.01 is false: no warning is set, whatever the amounts.\<close>

lemma absent_tax_no_warning:
  assumes "imageFile st = Some file" and "apiKey st \<noteq> []"
    and "fst (digitizeInvoice P file (apiKey st) (selectedModel st)) = Inr data"
    and "taxAmount data = None"
  shows "discrepancyWarning (fst (handleDigitize P st)) = None"
  using assms(4)
  by (simp add: handleDigitize_data [OF assms(1-3)] handleDigitize_try_def
      difference_without_tax Let_def split: option.split)

text \<open>
  Claim C3. A successful result without \<^verbatim>\<open>taxAmount\<close> is treated as if the tax were 0:
  the reconciliation warns exactly when the total differs from the sum of the line-item
  amounts by more than 0.01. The handler does not do so. For the response with the line
  item of amount 20, no \<^verbatim>\<open>taxAmount\<close> and the total 25, the difference from 20 + 0 is
  5, and the handler shows the result without a warning; the same response with
  \<^verbatim>\<open>taxAmount\<close> 0 is warned about.
\<close>

theorem absent_tax_example:
  "lineItems (untaxed_invoice 25) =
     Some [\<lparr>description = ''Widget'', quantity = Num 2, unitPrice = Num 10, amount = Num 20\<rparr>]
   \<and> taxAmount (untaxed_invoice 25) = None
   \<and> totalAmount (untaxed_invoice 25) = Num 25
   \<and> (0.01 :: real) < \<bar>25 - (20 + 0)\<bar>
   \<and> extractedData
        (fst (handleDigitize (answering (untaxed_response ''25'') (untaxed_invoice 25)) ready))
       = Some (untaxed_invoice 25)
   \<and> discrepancyWarning
        (fst (handleDigitize (answering (untaxed_response ''25'') (untaxed_invoice 25)) ready))
       = None
   \<and> discrepancyWarning
        (fst (handleDigitize
           (answering (untaxed_response ''25'') ((untaxed_invoice 25)\<lparr>taxAmount := Some (Num 0)\<rparr>)) ready))
       \<noteq> None"
proof -
  have a: "imageFile ready = Some (File ''invoice.png'' ''image/png'')"
    and b: "apiKey ready \<noteq> []"
    by (simp_all add: ready_fields)
  have u: "taxAmount (untaxed_invoice 25) = None"
    "vendorName (untaxed_invoice 25) \<noteq> ''Invalid Document''"
    "lineItems (untaxed_invoice 25) =
       Some [\<lparr>description = ''Widget'', quantity = Num 2, unitPrice = Num 10, amount = Num 20\<rparr>]"
    "totalAmount (untaxed_invoice 25) = Num 25"
    using round64_small(3) by (simp_all add: untaxed_invoice_def widget_invoice_def)
  have shown: "extractedData
        (fst (handleDigitize (answering (untaxed_response ''25'') (untaxed_invoice 25)) ready))
       = Some (untaxed_invoice 25)"
    using u(2)
    by (simp add: handleDigitize_data [OF a b ready_answering] handleDigitize_try_def
        Let_def split: option.split)
  have silent: "discrepancyWarning
        (fst (handleDigitize (answering (untaxed_response ''25'') (untaxed_invoice 25)) ready))
       = None"
    by (rule absent_tax_no_warning [OF a b ready_answering u(1)])
  have z: "difference ((untaxed_invoice 25)\<lparr>taxAmount := Some (Num 0)\<rparr>)
      [\<lparr>description = ''Widget'', quantity = Num 2, unitPrice = Num 10, amount = Num 20\<rparr>] = Num 5"
    using round64_small(1,5)
    by (simp add: difference_def calculatedTotal_def lineItemsTotal_def u(4) js_minus_def)
  have warned: "discrepancyWarning
        (fst (handleDigitize
           (answering (untaxed_response ''25'') ((untaxed_invoice 25)\<lparr>taxAmount := Some (Num 0)\<rparr>)) ready))
       \<noteq> None"
    using u(2,3) cent_comparisons(4)
    by (simp add: handleDigitize_data [OF a b ready_answering] handleDigitize_try_def z Let_def)
  show ?thesis
    using shown silent warned by (simp add: u)
qed

subsection \<open>The sentinel response\<close>

text \<open>
  Claim C2, as amended. When the response has the vendor name \<^verbatim>\<open>Invalid Document\<close>,
  the result stays empty, no discrepancy warning and no AI note are set, and the error is
  the \<^verbatim>\<open>notes\<close> of the response when they are present and not the empty string,
  the fixed message otherwise.
\<close>

theorem sentinel_rejection:
  assumes "imageFile st = Some file" and "apiKey st \<noteq> []"
    and "fst (digitizeInvoice P file (apiKey st) (selectedModel st)) = Inr data"
    and "vendorName data = ''Invalid Document''"
  shows "extractedData (fst (handleDigitize P st)) = None
     \<and> discrepancyWarning (fst (handleDigitize P st)) = None
     \<and> aiNote (fst (handleDigitize P st)) = None
     \<and> (\<forall>n. notes' data = Some n \<and> n \<noteq> [] \<longrightarrow> error (fst (handleDigitize P st)) = Some n)
     \<and> (notes' data = None \<or> notes' data = Some [] \<longrightarrow>
          error (fst (handleDigitize P st)) =
            Some ''The uploaded image does not appear to be a valid invoice. Please try another image.'')"
  using assms(4)
  by (auto simp add: handleDigitize_data [OF assms(1-3)] handleDigitize_try_def truthy_nonempty)

lemma invalid_document_fields:
  "vendorName (invalid_document n) = ''Invalid Document''"
  "notes' (invalid_document n) = n"
  by (simp_all add: invalid_document_def)

theorem sentinel_rejection_witness:
  "extractedData
     (fst (handleDigitize
        (answering (invalid_response ''This is a photo of a cat.'')
           (invalid_document (Some ''This is a photo of a cat.''))) ready)) = None
   \<and> error
     (fst (handleDigitize
        (answering (invalid_response ''This is a photo of a cat.'')
           (invalid_document (Some ''This is a photo of a cat.''))) ready))
     = Some ''This is a photo of a cat.''"
proof -
  have a: "imageFile ready = Some (File ''invoice.png'' ''image/png'')"
    and b: "apiKey ready \<noteq> []"
    by (simp_all add: ready_fields)
  show ?thesis
    using sentinel_rejection [OF a b
        ready_answering [of "invalid_response ''This is a photo of a cat.''"
          "invalid_document (Some ''This is a photo of a cat.'')"]
        invalid_document_fields(1)]
    by (simp add: invalid_document_fields(2))
qed

text \<open>The claim as it stands fails for notes that are present and empty: the error is
  the fixed message, not the notes.\<close>

theorem sentinel_empty_notes_counterexample:
  "vendorName (invalid_document (Some [])) = ''Invalid Document''
   \<and> notes' (invalid_document (Some [])) = Some []
   \<and> error (fst (handleDigitize (answering (invalid_response []) (invalid_document (Some []))) ready))
       = Some ''The uploaded image does not appear to be a valid invoice. Please try another image.''
   \<and> error (fst (handleDigitize (answering (invalid_response []) (invalid_document (Some []))) ready))
       \<noteq> notes' (invalid_document (Some []))"
proof -
  have a: "imageFile ready = Some (File ''invoice.png'' ''image/png'')"
    and b: "apiKey ready \<noteq> []"
    by (simp_all add: ready_fields)
  show ?thesis
    by (simp add: handleDigitize_data [OF a b ready_answering] handleDigitize_try_def
        invalid_document_fields)
qed

subsection \<open>Local failures\<close>

text \<open>
  Claim C4. Invoked without a selected file, or with an empty credential, the handler sets
  its own error message and changes nothing else, and the invocation has no effect: no
  outbound call is made. \<^verbatim>\<open>digitizeInvoice\<close> itself, given an empty credential,
  rejects with its configuration error before any effect.
\<close>

theorem local_failure:
  "(imageFile st = None \<longrightarrow>
      handleDigitize P st = (st\<lparr>error := Some ''Please upload an invoice image first.''\<rparr>, []))
   \<and> (imageFile st \<noteq> None \<and> apiKey st = [] \<longrightarrow>
      handleDigitize P st =
        (st\<lparr>error := Some ''Please enter your Gemini API key before digitizing.''\<rparr>, []))
   \<and> (imageFile st = None \<or> apiKey st = [] \<longrightarrow>
      snd (handleDigitize P st) = [] \<and> error (fst (handleDigitize P st)) \<noteq> None)
   \<and> digitizeInvoice Q file [] model =
        (Inl (Error ''Gemini API key is not set. Please enter your API key.''), [])"
  by (auto simp add: handleDigitize_def digitizeInvoice_def split: option.split)

theorem local_failure_witness:
  "handleDigitize (answering (widget_response ''25'') (widget_invoice 25)) initialState
     = (initialState\<lparr>error := Some ''Please upload an invoice image first.''\<rparr>, [])
   \<and> handleDigitize (answering (widget_response ''25'') (widget_invoice 25))
       (handleFileSelect (File ''invoice.png'' ''image/png'') initialState)
     = ((handleFileSelect (File ''invoice.png'' ''image/png'') initialState)
          \<lparr>error := Some ''Please enter your Gemini API key before digitizing.''\<rparr>, [])
   \<and> digitizeInvoice (answering (widget_response ''25'') (widget_invoice 25))
       (File ''invoice.png'' ''image/png'') [] ''gemini-2.5-flash''
     = (Inl (Error ''Gemini API key is not set. Please enter your API key.''), [])"
proof -
  have a: "imageFile initialState = None"
    by (simp add: initialState_def)
  have b: "imageFile (handleFileSelect (File ''invoice.png'' ''image/png'') initialState) \<noteq> None"
    and c: "apiKey (handleFileSelect (File ''invoice.png'' ''image/png'') initialState) = []"
    by (simp_all add: handleFileSelect_def initialState_def)
  show ?thesis
    using
      local_failure [of initialState "answering (widget_response ''25'') (widget_invoice 25)"
        "answering (widget_response ''25'') (widget_invoice 25)"
        "File ''invoice.png'' ''image/png''" "''gemini-2.5-flash''"]
      local_failure [of "handleFileSelect (File ''invoice.png'' ''image/png'') initialState"
        "answering (widget_response ''25'') (widget_invoice 25)"
        "answering (widget_response ''25'') (widget_invoice 25)"
        "File ''invoice.png'' ''image/png''" "''gemini-2.5-flash''"]
      a b c
    by simp
qed

subsection \<open>The loading flag\<close>

text \<open>
  Claim C10. When an invocation of the handler that got past its guards has completed,
  with a result, with the sentinel rejection or with a thrown error, the loading flag is
  false. An invocation stopped by a guard leaves the flag as it was, so it is false after
  every invocation that started with the flag false. Hence no completed extraction
  attempt leaves the flag true beside an error or a result.
\<close>

theorem loading_flag_cleared:
  "(imageFile st \<noteq> None \<and> apiKey st \<noteq> [] \<longrightarrow> \<not> isLoading (fst (handleDigitize P st)))
   \<and> (\<not> isLoading st \<longrightarrow> \<not> isLoading (fst (handleDigitize P st)))"
  by (auto simp add: handleDigitize_def Let_def split: option.split prod.split)

theorem loading_flag_cleared_witness:
  "\<not> isLoading (fst (handleDigitize (answering (widget_response ''25'') (widget_invoice 25)) ready))
   \<and> \<not> isLoading
       (fst (handleDigitize
          (answering (invalid_response ''Not an invoice.'') (invalid_document (Some ''Not an invoice.'')))
          ready))
   \<and> \<not> isLoading (fst (handleDigitize (failing (Error ''503 Service Unavailable'')) ready))
   \<and> \<not> isLoading (fst (handleDigitize (failing NotAnError) ready))
   \<and> \<not> isLoading (fst (handleDigitize (garbling ''Sorry, no.'') (ready\<lparr>isLoading := True\<rparr>)))
   \<and> \<not> isLoading (fst (handleDigitize (failing NotAnError) initialState))"
proof -
  have a: "imageFile ready \<noteq> None \<and> apiKey ready \<noteq> []"
    by (simp add: ready_fields)
  have b: "imageFile (ready\<lparr>isLoading := True\<rparr>) \<noteq> None \<and> apiKey (ready\<lparr>isLoading := True\<rparr>) \<noteq> []"
    by (simp add: ready_fields)
  have c: "\<not> isLoading initialState"
    by (simp add: initialState_def)
  show ?thesis
    using a b c
      loading_flag_cleared [of ready "answering (widget_response ''25'') (widget_invoice 25)"]
      loading_flag_cleared [of ready
        "answering (invalid_response ''Not an invoice.'') (invalid_document (Some ''Not an invoice.''))"]
      loading_flag_cleared [of ready "failing (Error ''503 Service Unavailable'')"]
      loading_flag_cleared [of ready "failing NotAnError"]
      loading_flag_cleared [of "ready\<lparr>isLoading := True\<rparr>" "garbling ''Sorry, no.''"]
      loading_flag_cleared [of initialState "failing NotAnError"]
    by blast
qed

subsection \<open>Selecting a file\<close>

text \<open>
  Claim C6. Whatever result, error, AI note or discrepancy warning the state holds,
  selecting a file records the file and resets all four to null. The handler does
  nothing else: the credential, the model and the loading flag are as before, and no
  extraction has begun.
\<close>

theorem file_select_clears:
  "imageFile (handleFileSelect file st) = Some file
   \<and> extractedData (handleFileSelect file st) = None
   \<and> error (handleFileSelect file st) = None
   \<and> aiNote (handleFileSelect file st) = None
   \<and> discrepancyWarning (handleFileSelect file st) = None
   \<and> isLoading (handleFileSelect file st) = isLoading st
   \<and> apiKey (handleFileSelect file st) = apiKey st
   \<and> selectedModel (handleFileSelect file st) = selectedModel st
   \<and> cameraActive (handleFileSelect file st) = cameraActive st"
  by (simp add: handleFileSelect_def)

theorem file_select_clears_witness:
  "extractedData (fst (handleDigitize (answering (widget_response ''25'') (widget_invoice 25)) ready))
     = Some (widget_invoice 25)
   \<and> discrepancyWarning
       (fst (handleDigitize (answering (widget_response ''25'') (widget_invoice 25)) ready)) \<noteq> None
   \<and> imageFile (handleFileSelect (File ''next.jpg'' ''image/jpeg'')
       (fst (handleDigitize (answering (widget_response ''25'') (widget_invoice 25)) ready)))
     = Some (File ''next.jpg'' ''image/jpeg'')
   \<and> extractedData (handleFileSelect (File ''next.jpg'' ''image/jpeg'')
       (fst (handleDigitize (answering (widget_response ''25'') (widget_invoice 25)) ready))) = None
   \<and> discrepancyWarning (handleFileSelect (File ''next.jpg'' ''image/jpeg'')
       (fst (handleDigitize (answering (widget_response ''25'') (widget_invoice 25)) ready))) = None
   \<and> error (handleFileSelect (File ''next.jpg'' ''image/jpeg'')
       (fst (handleDigitize (answering (widget_response ''25'') (widget_invoice 25)) ready))) = None
   \<and> aiNote (handleFileSelect (File ''next.jpg'' ''image/jpeg'')
       (fst (handleDigitize (answering (widget_response ''25'') (widget_invoice 25)) ready))) = None"
proof -
  have a: "imageFile ready = Some (File ''invoice.png'' ''image/png'')"
    and b: "apiKey ready \<noteq> []"
    by (simp_all add: ready_fields)
  note d = widget_difference(1) [OF widget_invoice_fields(2,3) widget_invoice_total(1)]
  have before: "extractedData
       (fst (handleDigitize (answering (widget_response ''25'') (widget_invoice 25)) ready))
     = Some (widget_invoice 25)
   \<and> discrepancyWarning
       (fst (handleDigitize (answering (widget_response ''25'') (widget_invoice 25)) ready)) \<noteq> None"
    using cent_comparisons(1)
    by (simp add: handleDigitize_data [OF a b ready_answering] handleDigitize_try_def
        widget_invoice_fields(1,2) d Let_def)
  show ?thesis
    using before
      file_select_clears [of "File ''next.jpg'' ''image/jpeg''"
        "fst (handleDigitize (answering (widget_response ''25'') (widget_invoice 25)) ready)"]
    by simp
qed

subsection \<open>Parsing the response\<close>

text \<open>
  Claim C8, as amended. With a credential, \<^verbatim>\<open>digitizeInvoice\<close> makes one outbound
  call. When \<^verbatim>\<open>JSON.parse\<close> throws on the trimmed text of the response, it logs
  what was thrown and the raw text, and rejects with its fixed parse-error message, which
  is not the message of the configuration error. When \<^verbatim>\<open>JSON.parse\<close> gives a value,
  that value is returned as it is, whatever its shape. When the call itself fails, what it
  threw is passed on unchanged and nothing is logged.
\<close>

theorem parse_outcomes:
  assumes "key \<noteq> []"
  shows "(\<forall>text e. generateContent P model key img = Inr text \<and> JSON_parse P (trim P text) = Inl e \<longrightarrow>
        digitizeInvoice P img key model =
          (Inl (Error ''Failed to parse invoice data. The AI model returned an unexpected format.''),
           [GenerateContent model key img,
            ConsoleError ''Error parsing JSON response from Gemini:'' (Exception e),
            ConsoleError ''Raw response text:'' (Text text)]))
     \<and> (\<forall>text d. generateContent P model key img = Inr text \<and> JSON_parse P (trim P text) = Inr d \<longrightarrow>
        digitizeInvoice P img key model = (Inr d, [GenerateContent model key img]))
     \<and> (\<forall>e. generateContent P model key img = Inl e \<longrightarrow>
        digitizeInvoice P img key model = (Inl e, [GenerateContent model key img]))
     \<and> ''Failed to parse invoice data. The AI model returned an unexpected format.''
        \<noteq> ''Gemini API key is not set. Please enter your API key.''"
  using assms by (simp add: digitizeInvoice_def)

theorem parse_outcomes_witness:
  "digitizeInvoice (garbling ''Sorry, I cannot read this image.'' :: InvoiceData platform)
       (File ''invoice.png'' ''image/png'') ''secret'' ''gemini-2.5-flash''
     = (Inl (Error ''Failed to parse invoice data. The AI model returned an unexpected format.''),
        [GenerateContent ''gemini-2.5-flash'' ''secret'' (File ''invoice.png'' ''image/png''),
         ConsoleError ''Error parsing JSON response from Gemini:'' (Exception (Error ''Unexpected token'')),
         ConsoleError ''Raw response text:'' (Text ''Sorry, I cannot read this image.'')])
   \<and> digitizeInvoice (answering (widget_response ''25'') (widget_invoice 25))
       (File ''invoice.png'' ''image/png'') ''secret'' ''gemini-2.5-flash''
     = (Inr (widget_invoice 25),
        [GenerateContent ''gemini-2.5-flash'' ''secret'' (File ''invoice.png'' ''image/png'')])
   \<and> digitizeInvoice (failing (Error ''503 Service Unavailable'') :: InvoiceData platform)
       (File ''invoice.png'' ''image/png'') ''secret'' ''gemini-2.5-flash''
     = (Inl (Error ''503 Service Unavailable''),
        [GenerateContent ''gemini-2.5-flash'' ''secret'' (File ''invoice.png'' ''image/png'')])"
proof -
  have k: "''secret'' \<noteq> []"
    by simp
  have g: "generateContent (garbling t :: InvoiceData platform) m ''secret'' i = Inr t"
    "JSON_parse (garbling t :: InvoiceData platform) s = Inl (Error ''Unexpected token'')"
    "trim (garbling t :: InvoiceData platform) = trim_ascii" for t m i s
    by (simp_all add: garbling_def)
  have a: "generateContent (answering t d) m ''secret'' i = Inr t"
    "JSON_parse (answering t d) (trim (answering t d) t) = Inr d" for t m i and d :: InvoiceData
    by (simp_all add: answering_def)
  have f: "generateContent (failing e :: InvoiceData platform) m ''secret'' i = Inl e" for e m i
    by (simp add: failing_def)
  show ?thesis
    using
      parse_outcomes [OF k, of "garbling ''Sorry, I cannot read this image.'' :: InvoiceData platform"
        "''gemini-2.5-flash''" "File ''invoice.png'' ''image/png''"]
      parse_outcomes [OF k, of "answering (widget_response ''25'') (widget_invoice 25)"
        "''gemini-2.5-flash''" "File ''invoice.png'' ''image/png''"]
      parse_outcomes [OF k, of "failing (Error ''503 Service Unavailable'') :: InvoiceData platform"
        "''gemini-2.5-flash''" "File ''invoice.png'' ''image/png''"]
    by (simp add: g a f)
qed

text \<open>The claim as it stands fails for a text that is JSON without the expected shape: the
  text \<^verbatim>\<open>{}\<close> is read as the empty object, which has none of the required fields,
  and it is returned as the invoice data.\<close>

theorem unchecked_shape_counterexample:
  "\<not> is_InvoiceData (JObject [])
   \<and> digitizeInvoice (answering ''{}'' (JObject []))
       (File ''invoice.png'' ''image/png'') ''secret'' ''gemini-2.5-flash''
     = (Inr (JObject []),
        [GenerateContent ''gemini-2.5-flash'' ''secret'' (File ''invoice.png'' ''image/png'')])"
  by (simp add: is_InvoiceData_def string_field_def digitizeInvoice_answering)

subsection \<open>The currency code\<close>

lemma upper_char_capital: "is_letter c \<Longrightarrow> is_upper_AZ (upper_char c)"
  by (auto simp: is_letter_def is_upper_AZ_def is_lower_az_def upper_char_def)

lemma upper_char_of_capital: "is_upper_AZ c \<Longrightarrow> upper_char c = c"
  by (auto simp: is_upper_AZ_def is_lower_az_def upper_char_def)

lemma upper_char_same_letter:
  "is_letter c \<Longrightarrow> (of_char (upper_char c) :: nat) mod 32 = (of_char c :: nat) mod 32"
proof (cases "is_lower_az c")
  case True
  then have "32 \<le> (of_char c :: nat)" and "(of_char c :: nat) - 32 < 256"
    by (auto simp add: is_lower_az_def)
  then show ?thesis
    using True by (simp add: upper_char_def le_mod_geq)
next
  case False
  then show ?thesis by (simp add: upper_char_def)
qed

lemma toUpperCase_capitals: "three_letters c \<Longrightarrow> three_capitals (toUpperCase c)"
  by (simp add: three_letters_def three_capitals_def toUpperCase_def list_all_iff upper_char_capital)

lemma three_capitals_MYR: "three_capitals ''MYR''"
  by (simp add: three_capitals_def is_upper_AZ_def)

lemma three_capitals_letters: "three_capitals c \<Longrightarrow> three_letters c"
  by (simp add: three_capitals_def three_letters_def is_letter_def list_all_iff)

lemma toUpperCase_of_capitals: "three_capitals c \<Longrightarrow> toUpperCase c = c"
  by (simp add: three_capitals_def toUpperCase_def list_all_iff upper_char_of_capital map_idI)

lemma three_letters_nonempty: "three_letters c \<Longrightarrow> c \<noteq> []"
  by (auto simp: three_letters_def)

lemma getSafeCurrencyCode_capitals: "three_capitals (getSafeCurrencyCode code)"
  by (simp add: getSafeCurrencyCode_def three_capitals_MYR toUpperCase_capitals split: option.split)

text \<open>
  Claim C5. For an absent code, and for every string that does not match the three-letter
  pattern, the sanitizer returns the fixed default \<^verbatim>\<open>MYR\<close>; it raises nothing, and
  what it returns is a well-formed three-letter code.
\<close>

theorem currency_code_fallback:
  "(code = None \<or> (\<exists>c. code = Some c \<and> \<not> three_letters c)) \<longrightarrow>
     getSafeCurrencyCode code = ''MYR'' \<and> three_capitals (getSafeCurrencyCode code)"
  by (auto simp add: getSafeCurrencyCode_def three_capitals_MYR)

theorem currency_code_fallback_witness:
  "getSafeCurrencyCode None = ''MYR''
   \<and> getSafeCurrencyCode (Some []) = ''MYR''
   \<and> getSafeCurrencyCode (Some ''US$'') = ''MYR''
   \<and> getSafeCurrencyCode (Some ''euro'') = ''MYR''
   \<and> three_capitals ''MYR''"
proof -
  have n: "\<not> three_letters []" "\<not> three_letters ''US$''" "\<not> three_letters ''euro''"
    by (simp_all add: three_letters_def is_letter_def is_lower_az_def is_upper_AZ_def)
  show ?thesis
    using n
      currency_code_fallback [of None]
      currency_code_fallback [of "Some []"]
      currency_code_fallback [of "Some ''US$''"]
      currency_code_fallback [of "Some ''euro''"]
    by (simp add: three_capitals_MYR)
qed

text \<open>
  Claim C9. For a string of exactly three ASCII letters in any case, the sanitizer returns
  its upper-case form: three capitals that are, position by position, the letters of the
  input (a letter and its capital have the same code modulo 32); a code already in capitals
  is returned unchanged. For every input, the output matches \<^verbatim>\<open>^[A-Z]{3}$\<close>.
\<close>

theorem currency_code_upper:
  "(three_letters c \<longrightarrow>
      getSafeCurrencyCode (Some c) = toUpperCase c
      \<and> map (\<lambda>x. (of_char x :: nat) mod 32) (getSafeCurrencyCode (Some c))
          = map (\<lambda>x. (of_char x :: nat) mod 32) c)
   \<and> (three_capitals c \<longrightarrow> getSafeCurrencyCode (Some c) = c)
   \<and> three_capitals (getSafeCurrencyCode code)"
proof -
  have same: "map (\<lambda>x. (of_char x :: nat) mod 32) (toUpperCase c)
      = map (\<lambda>x. (of_char x :: nat) mod 32) c" if "three_letters c"
    using that
    by (simp add: toUpperCase_def three_letters_def list_all_iff upper_char_same_letter)
  have upper: "getSafeCurrencyCode (Some c) = toUpperCase c" if "three_letters c"
    using that by (simp add: getSafeCurrencyCode_def three_letters_nonempty)
  have kept: "getSafeCurrencyCode (Some c) = c" if "three_capitals c"
    using that upper [OF three_capitals_letters] by (simp add: toUpperCase_of_capitals)
  show ?thesis
    using same upper kept getSafeCurrencyCode_capitals by simp
qed

theorem currency_code_upper_witness:
  "getSafeCurrencyCode (Some ''usd'') = ''USD''
   \<and> getSafeCurrencyCode (Some ''EUR'') = ''EUR''
   \<and> three_capitals (getSafeCurrencyCode (Some ''Myr''))
   \<and> three_capitals (getSafeCurrencyCode (Some ''12345''))"
proof -
  have l: "three_letters ''usd''" and u: "three_capitals ''EUR''"
    by (simp_all add: three_letters_def three_capitals_def is_letter_def is_lower_az_def
        is_upper_AZ_def)
  have v: "toUpperCase ''usd'' = ''USD''"
    by code_simp
  show ?thesis
    using l u
      currency_code_upper [of "''usd''" "Some ''Myr''"]
      currency_code_upper [of "''EUR''" "Some ''12345''"]
    by (simp add: v)
qed


end
